theory Spec2Isabelle
  imports Complex_Main "HOL-Library.Word" "HOL-Library.Log_Nat"
begin

unbundle bit_operations_syntax

section \<open>STTS22H temperature sensor driver\<close>

text \<open>
  A shallow embedding of \<^verbatim>\<open>stts22h.h\<close> and of the driver source. Every driver function
  takes the device structure and returns what it returned, the device structure as it
  left it, and the transfers it requested from the I2C transport.
\<close>

subsection \<open>Single-precision arithmetic\<close>

text \<open>
  A C \<^verbatim>\<open>float\<close> is taken to be an IEEE-754 binary32 number (24 significant bits,
  smallest normal exponent \<open>-126\<close>), every operation rounded to the nearest number, ties
  to the even significand, with no excess precision. A finite \<^verbatim>\<open>float\<close> is
  modelled by the rational it denotes. Infinities and NaN have no model: \<open>f32\<close> has no
  largest exponent, so a result of magnitude \<open>2 ^ 128\<close> or more stands for an overflow.
\<close>

type_synonym cfloat = rat

text \<open>The exponent \<open>e\<close> with \<open>2 ^ e \<le> \<bar>x\<bar> < 2 ^ (e + 1)\<close>, for \<open>x \<noteq> 0\<close>.\<close>

definition ilog2 :: "rat \<Rightarrow> int" where
  "ilog2 x = (if 1 \<le> \<bar>x\<bar> then bitlen \<lfloor>\<bar>x\<bar>\<rfloor> - 1 else - bitlen (\<lceil>1 / \<bar>x\<bar>\<rceil> - 1))"

text \<open>Rounding to the nearest integer, a tie to the even one.\<close>

definition round_even :: "rat \<Rightarrow> int" where
  "round_even z = (let f = \<lfloor>z\<rfloor>; r = z - of_int f in
     if r < 1 / 2 then f else if 1 / 2 < r then f + 1 else if even f then f else f + 1)"

text \<open>The unit in the last place of the binary32 numbers around \<open>x\<close>.\<close>

definition ulp32 :: "rat \<Rightarrow> rat" where
  "ulp32 x = 2 powi (max (ilog2 x) (- 126) - 23)"

text \<open>Rounding a rational to binary32.\<close>

definition f32 :: "rat \<Rightarrow> cfloat" where
  "f32 x = (if x = 0 then 0 else of_int (round_even (x / ulp32 x)) * ulp32 x)"

definition fadd :: "cfloat \<Rightarrow> cfloat \<Rightarrow> cfloat" where
  "fadd a b = f32 (a + b)"

definition fdiv :: "cfloat \<Rightarrow> cfloat \<Rightarrow> cfloat" where
  "fdiv a b = f32 (a / b)"

text \<open>The conversion \<^verbatim>\<open>(float) n\<close> of an integer.\<close>

definition float_of_int :: "int \<Rightarrow> cfloat" where
  "float_of_int n = f32 (of_int n)"

text \<open>
  The conversion \<^verbatim>\<open>(uint8_t) v\<close> of a \<^verbatim>\<open>float\<close>: the fraction is discarded
  (truncation towards zero); when the integral part is not a value of \<^verbatim>\<open>uint8_t\<close>
  the behaviour is undefined in C, which is the result \<open>None\<close>.
\<close>

type_synonym uint8 = "8 word"
type_synonym int32 = "32 word"

definition trunc :: "rat \<Rightarrow> int" where
  "trunc v = (if 0 \<le> v then \<lfloor>v\<rfloor> else \<lceil>v\<rceil>)"

definition uint8_of_float :: "cfloat \<Rightarrow> uint8 option" where
  "uint8_of_float v = (if - 1 < v \<and> v < 256 then Some (word_of_int (trunc v)) else None)"

subsection \<open>The header: error codes, registers, the device structure\<close>

text \<open>
  The header \<^verbatim>\<open>i2c.h\<close> of the transport is not among the sources. Its two constants
  and the answers of its functions are a parameter of every driver function: the record
  \<open>i2c_h\<close> holds what each function of the transport answers when the driver calls it
  during one call of a driver function, as a function of the arguments passed. A pointer
  is a number, \<open>NULL\<close> is \<open>0\<close>. The bytes behind a \<^verbatim>\<open>data\<close> pointer of
  \<^verbatim>\<open>I2C_writeData\<close> are passed as a list; the receive buffer returned by
  \<^verbatim>\<open>I2C_getReceivedData\<close> is an array of the transport, read by index.
\<close>

type_synonym ptr = nat

definition NULL :: ptr where
  "NULL = 0"

record i2c_h =
  I2C_SUCCESS :: int
  I2C_NUMBER_ERRORS :: int
  I2C_writeData :: "ptr \<Rightarrow> uint8 \<Rightarrow> uint8 list \<Rightarrow> nat \<Rightarrow> bool \<Rightarrow> int"
  I2C_readData :: "ptr \<Rightarrow> uint8 \<Rightarrow> nat \<Rightarrow> int"
  I2C_isReading :: "ptr \<Rightarrow> bool"
  I2C_isWriting :: "ptr \<Rightarrow> bool"
  I2C_isFailed :: "ptr \<Rightarrow> bool"
  I2C_getReceivedData :: "ptr \<Rightarrow> nat \<Rightarrow> uint8"

text \<open>A transfer requested from the transport, with the arguments of the call.\<close>

datatype bus_call =
  WriteData ptr uint8 "uint8 list" nat bool
  | ReadData ptr uint8 nat

text \<open>\<^verbatim>\<open>enum STTS22H_Errors\<close>\<close>

definition STTS22H_SUCCESS :: int where
  "STTS22H_SUCCESS = 0"

definition STTS22H_NOT_INIT :: "i2c_h \<Rightarrow> int" where
  "STTS22H_NOT_INIT h = - I2C_NUMBER_ERRORS h - 1"

definition STTS22H_WRONG_DATA :: "i2c_h \<Rightarrow> int" where
  "STTS22H_WRONG_DATA h = - I2C_NUMBER_ERRORS h - 2"

definition STTS22H_BUSY :: "i2c_h \<Rightarrow> int" where
  "STTS22H_BUSY h = - I2C_NUMBER_ERRORS h - 3"

text \<open>
  \<^verbatim>\<open>STTS22H_Def\<close>. The unions \<^verbatim>\<open>settings\<close> and \<^verbatim>\<open>status\<close> are their
  byte \<^verbatim>\<open>full\<close>; a bit-field is a bit of that byte, the first declared field the least
  significant bit (the allocation of the compilers the driver is built with, and the
  layout of the sensor's registers).
\<close>

record STTS22H_Def =
  isInit :: bool
  isConnected :: bool
  isReading :: bool
  addrSent :: bool
  regAddr :: uint8
  dataSize :: uint8
  settings :: uint8
  status :: uint8
  temp :: cfloat
  devAddr :: uint8
  i2c :: ptr

definition status_busy :: "uint8 \<Rightarrow> bool" where
  "status_busy st = bit st 0"

definition status_over_thh :: "uint8 \<Rightarrow> bool" where
  "status_over_thh st = bit st 1"

definition status_under_thl :: "uint8 \<Rightarrow> bool" where
  "status_under_thl st = bit st 2"

text \<open>What a call of a driver function did.\<close>

record ('r, 's) outcome =
  ret :: 'r
  calls :: "bus_call list"
  dev :: 's

subsection \<open>The driver\<close>

definition WHOAMI :: uint8 where
  "WHOAMI = 0xA0"

text \<open>\<^verbatim>\<open>enum STTS22H_RegAddresses\<close>\<close>

definition WHOAMI_ADDR :: uint8 where
  "WHOAMI_ADDR = 0x01"

definition TEMP_H_LIMIT_ADDR :: uint8 where
  "TEMP_H_LIMIT_ADDR = 0x02"

definition TEMP_L_LIMIT_ADDR :: uint8 where
  "TEMP_L_LIMIT_ADDR = 0x03"

definition CTRL_ADDR :: uint8 where
  "CTRL_ADDR = 0x04"

definition STATUS_ADDR :: uint8 where
  "STATUS_ADDR = 0x05"

definition TEMP_L_OUT_ADDR :: uint8 where
  "TEMP_L_OUT_ADDR = 0x06"

definition TEMP_H_OUT_ADDR :: uint8 where
  "TEMP_H_OUT_ADDR = 0x07"

text \<open>
  The static functions \<^verbatim>\<open>isInit\<close> and \<^verbatim>\<open>isReading\<close> return the field of their
  name: they are the selectors \<^const>\<open>isInit\<close> and \<^const>\<open>isReading\<close> of the record.
\<close>

text \<open>
  \<^verbatim>\<open>STTS22H_init\<close>. The pointer \<^verbatim>\<open>stts\<close> may be null here, so the structure is an
  option; every other function dereferences it unchecked and takes the structure itself.
\<close>

definition STTS22H_init ::
  "i2c_h \<Rightarrow> STTS22H_Def option \<Rightarrow> ptr \<Rightarrow> uint8 \<Rightarrow> (int, STTS22H_Def option) outcome" where
  "STTS22H_init h stts i2c_p addr =
     (case stts of
        None \<Rightarrow> \<lparr>ret = STTS22H_WRONG_DATA h, calls = [], dev = None\<rparr>
      | Some s \<Rightarrow>
          if i2c_p = NULL \<or> addr = 0
          then \<lparr>ret = STTS22H_WRONG_DATA h, calls = [], dev = Some s\<rparr>
          else \<lparr>ret = STTS22H_SUCCESS, calls = [],
                dev = Some (s\<lparr>i2c := i2c_p, devAddr := addr,
                                temp := f32 (- (27315 / 100)), isInit := True\<rparr>)\<rparr>)"

definition STTS22H_checkConnection :: "i2c_h \<Rightarrow> STTS22H_Def \<Rightarrow> (int, STTS22H_Def) outcome" where
  "STTS22H_checkConnection h stts =
     (if \<not> isInit stts then \<lparr>ret = STTS22H_NOT_INIT h, calls = [], dev = stts\<rparr>
      else if isReading stts then \<lparr>ret = STTS22H_BUSY h, calls = [], dev = stts\<rparr>
      else
        let s1 = stts\<lparr>regAddr := WHOAMI_ADDR, dataSize := 1\<rparr>;
            result = I2C_writeData h (i2c s1) (devAddr s1) [regAddr s1] 1 False
        in \<lparr>ret = result,
            calls = [WriteData (i2c s1) (devAddr s1) [regAddr s1] 1 False],
            dev = (if result = I2C_SUCCESS h then s1\<lparr>isReading := True\<rparr> else s1)\<rparr>)"

definition STTS22H_isConnected :: "STTS22H_Def \<Rightarrow> bool" where
  "STTS22H_isConnected stts = isConnected stts"

definition STTS22H_setting :: "i2c_h \<Rightarrow> STTS22H_Def \<Rightarrow> uint8 \<Rightarrow> (int, STTS22H_Def) outcome" where
  "STTS22H_setting h stts controlReg =
     (if \<not> isInit stts then \<lparr>ret = STTS22H_NOT_INIT h, calls = [], dev = stts\<rparr>
      else
        let data = [CTRL_ADDR, controlReg];
            result = I2C_writeData h (i2c stts) (devAddr stts) data 2 True
        in \<lparr>ret = result,
            calls = [WriteData (i2c stts) (devAddr stts) data 2 True],
            dev = (if result = I2C_SUCCESS h then stts\<lparr>settings := controlReg\<rparr> else stts)\<rparr>)"

definition calculateThreshold :: "cfloat \<Rightarrow> uint8 option" where
  "calculateThreshold value =
     (let value1 = fdiv value (f32 (64 / 100));
          value2 = fadd value1 (f32 63)
      in uint8_of_float value2)"

text \<open>
  \<^verbatim>\<open>STTS22H_setLimits\<close>. The result is \<open>None\<close> when a conversion in
  \<^verbatim>\<open>calculateThreshold\<close> is undefined.
\<close>

definition STTS22H_setLimits ::
  "i2c_h \<Rightarrow> STTS22H_Def \<Rightarrow> cfloat \<Rightarrow> cfloat \<Rightarrow> bool \<Rightarrow> (int, STTS22H_Def) outcome option" where
  "STTS22H_setLimits h stts minTemp maxTemp isSetLimits =
     (if \<not> isInit stts then Some \<lparr>ret = STTS22H_NOT_INIT h, calls = [], dev = stts\<rparr>
      else if minTemp < - (395 / 10) \<or> 1225 / 10 < maxTemp
      then Some \<lparr>ret = STTS22H_WRONG_DATA h, calls = [], dev = stts\<rparr>
      else
        case (if isSetLimits
              then (case calculateThreshold maxTemp of
                      None \<Rightarrow> None
                    | Some d1 \<Rightarrow>
                        (case calculateThreshold minTemp of
                           None \<Rightarrow> None
                         | Some d2 \<Rightarrow> Some [TEMP_H_LIMIT_ADDR, d1, d2]))
              else Some [TEMP_H_LIMIT_ADDR, 0, 0]) of
          None \<Rightarrow> None
        | Some data \<Rightarrow>
            Some \<lparr>ret = I2C_writeData h (i2c stts) (devAddr stts) data 3 True,
                  calls = [WriteData (i2c stts) (devAddr stts) data 3 True],
                  dev = stts\<rparr>)"

definition STTS22H_measure :: "i2c_h \<Rightarrow> STTS22H_Def \<Rightarrow> (int, STTS22H_Def) outcome" where
  "STTS22H_measure h stts =
     (if \<not> isInit stts then \<lparr>ret = STTS22H_NOT_INIT h, calls = [], dev = stts\<rparr>
      else if isReading stts then \<lparr>ret = STTS22H_BUSY h, calls = [], dev = stts\<rparr>
      else
        let s1 = stts\<lparr>regAddr := STATUS_ADDR, dataSize := 3\<rparr>;
            result = I2C_writeData h (i2c s1) (devAddr s1) [regAddr s1] 1 False
        in \<lparr>ret = result,
            calls = [WriteData (i2c s1) (devAddr s1) [regAddr s1] 1 False],
            dev = (if result = I2C_SUCCESS h then s1\<lparr>isReading := True\<rparr> else s1)\<rparr>)"

definition STTS22H_getTemp_C :: "STTS22H_Def \<Rightarrow> cfloat" where
  "STTS22H_getTemp_C stts = temp stts"

definition STTS22H_isOverheated :: "STTS22H_Def \<Rightarrow> bool" where
  "STTS22H_isOverheated stts = status_over_thh (status stts)"

definition STTS22H_isOvercooled :: "STTS22H_Def \<Rightarrow> bool" where
  "STTS22H_isOvercooled stts = status_under_thl (status stts)"

definition calculateTemp :: "uint8 \<Rightarrow> uint8 \<Rightarrow> cfloat" where
  "calculateTemp hOut lOut =
     (let temp0 = push_bit 8 (ucast hOut :: int32) OR ucast lOut;
          temp1 = (if (push_bit 15 1 :: int32) \<le>s temp0 then temp0 - push_bit 16 1 else temp0)
      in fdiv (float_of_int (sint temp1)) (f32 100))"

text \<open>The \<^verbatim>\<open>switch\<close> of \<^verbatim>\<open>STTS22H_update\<close> on the register of the finished read.\<close>

definition decode :: "(nat \<Rightarrow> uint8) \<Rightarrow> STTS22H_Def \<Rightarrow> STTS22H_Def" where
  "decode data stts =
     (if regAddr stts = WHOAMI_ADDR then stts\<lparr>isConnected := (WHOAMI = data 0)\<rparr>
      else if regAddr stts = TEMP_H_LIMIT_ADDR then stts
      else if regAddr stts = CTRL_ADDR then stts
      else if regAddr stts = STATUS_ADDR then
        (let s1 = stts\<lparr>status := data 0\<rparr>
         in if \<not> status_busy (status s1)
            then s1\<lparr>temp := calculateTemp (data 2) (data 1)\<rparr>
            else s1)
      else if regAddr stts = TEMP_L_OUT_ADDR then stts
      else stts)"

definition STTS22H_update :: "i2c_h \<Rightarrow> STTS22H_Def \<Rightarrow> (unit, STTS22H_Def) outcome" where
  "STTS22H_update h stts =
     (if \<not> isInit stts then \<lparr>ret = (), calls = [], dev = stts\<rparr>
      else if \<not> isReading stts then \<lparr>ret = (), calls = [], dev = stts\<rparr>
      else if I2C_isReading h (i2c stts) \<or> I2C_isWriting h (i2c stts)
      then \<lparr>ret = (), calls = [], dev = stts\<rparr>
      else if addrSent stts then
        (let s1 = stts\<lparr>addrSent := False, isReading := False\<rparr>
         in \<lparr>ret = (), calls = [],
             dev = (if \<not> I2C_isFailed h (i2c s1)
                    then decode (I2C_getReceivedData h (i2c s1)) s1 else s1)\<rparr>)
      else
        (let result = I2C_readData h (i2c stts) (devAddr stts) (unat (dataSize stts))
         in \<lparr>ret = (),
             calls = [ReadData (i2c stts) (devAddr stts) (unat (dataSize stts))],
             dev = (if result = I2C_SUCCESS h then stts\<lparr>addrSent := True\<rparr>
                    else stts\<lparr>isReading := False\<rparr>)\<rparr>))"

subsection \<open>The caller's polling loop\<close>

text \<open>
  The caller invokes \<^verbatim>\<open>STTS22H_update\<close> again and again. \<open>poll hs stts\<close> is one call
  for each element of \<open>hs\<close>, which is the transport as that call finds it.
\<close>

fun poll :: "i2c_h list \<Rightarrow> STTS22H_Def \<Rightarrow> (unit, STTS22H_Def) outcome" where
  "poll [] stts = \<lparr>ret = (), calls = [], dev = stts\<rparr>"
| "poll (h # hs) stts =
     (let o1 = STTS22H_update h stts; o2 = poll hs (dev o1)
      in \<lparr>ret = (), calls = calls o1 @ calls o2, dev = dev o2\<rparr>)"

text \<open>
  The transport is in progress when one of its two probes says so: the condition of the
  third \<^verbatim>\<open>return\<close> of \<^verbatim>\<open>STTS22H_update\<close>.
\<close>

definition transport_busy :: "i2c_h \<Rightarrow> ptr \<Rightarrow> bool" where
  "transport_busy h p = (I2C_isReading h p \<or> I2C_isWriting h p)"

subsection \<open>The decoding of the temperature in the words of the specification\<close>

text \<open>
  The specification reads the two temperature bytes as \<open>raw = (high << 8) | low\<close>, a
  16-bit two's-complement integer, \<open>65536\<close> subtracted when \<open>raw \<ge> 32768\<close>.
  These two definitions follow its words; \<open>calculateTemp\<close> above follows the source.
\<close>

definition raw16 :: "uint8 \<Rightarrow> uint8 \<Rightarrow> int" where
  "raw16 high low = push_bit 8 (uint high) OR uint low"

definition twos16 :: "int \<Rightarrow> int" where
  "twos16 raw = (if 32768 \<le> raw then raw - 65536 else raw)"

subsection \<open>Devices and transports used as examples\<close>

text \<open>
  A structure of zero bytes, and the same after \<^verbatim>\<open>STTS22H_init\<close> with the handle
  \<open>1\<close> and the address \<open>0x3C\<close>.
\<close>

definition zero_dev :: STTS22H_Def where
  "zero_dev = \<lparr>isInit = False, isConnected = False, isReading = False, addrSent = False,
     regAddr = 0, dataSize = 0, settings = 0, status = 0, temp = 0, devAddr = 0, i2c = NULL\<rparr>"

definition test_dev :: STTS22H_Def where
  "test_dev = zero_dev\<lparr>i2c := 1, devAddr := 0x3C, temp := - (8950579 / 32768), isInit := True\<rparr>"

text \<open>
  A transport that accepts every request with \<^verbatim>\<open>I2C_SUCCESS\<close> (taken as \<open>0\<close>,
  with four error codes), is writing or not, has failed or not, and whose receive buffer
  starts with the bytes \<open>0x00, 0x90, 0x01\<close>.
\<close>

definition test_i2c :: "bool \<Rightarrow> bool \<Rightarrow> i2c_h" where
  "test_i2c busy failed =
     \<lparr>I2C_SUCCESS = 0, I2C_NUMBER_ERRORS = 4,
      I2C_writeData = (\<lambda>p a d n stop. 0),
      I2C_readData = (\<lambda>p a n. 0),
      I2C_isReading = (\<lambda>p. False),
      I2C_isWriting = (\<lambda>p. busy),
      I2C_isFailed = (\<lambda>p. failed),
      I2C_getReceivedData = (\<lambda>p i. if i = 1 then 0x90 else if i = 2 then 0x01 else 0x00)\<rparr>"

text \<open>
  The initialized structure with a measurement in flight, its address write requested;
  and a structure of zero bytes whose flag \<^verbatim>\<open>isReading\<close> alone is set.
\<close>

definition test_dev_busy :: STTS22H_Def where
  "test_dev_busy = test_dev\<lparr>regAddr := 0x05, dataSize := 3, isReading := True\<rparr>"

definition zero_dev_busy :: STTS22H_Def where
  "zero_dev_busy = zero_dev\<lparr>isReading := True\<rparr>"

section \<open>Properties of the arithmetic\<close>

lemma round_even_error: "\<bar>of_int (round_even z) - z\<bar> \<le> 1 / 2"
proof -
  have "of_int \<lfloor>z\<rfloor> \<le> z" "z < of_int \<lfloor>z\<rfloor> + 1" by linarith+
  then show ?thesis
    by (auto simp: round_even_def Let_def abs_le_iff)
qed

lemma round_even_of_int: "round_even (of_int n) = n"
  by (simp add: round_even_def)

lemma ilog2_le:
  assumes "x \<noteq> 0"
  shows "2 powi (ilog2 x) \<le> \<bar>x\<bar>"
proof (cases "1 \<le> \<bar>x\<bar>")
  case True
  define n where "n = \<lfloor>\<bar>x\<bar>\<rfloor>"
  have n: "0 < n" using True by (simp add: n_def)
  have b: "1 \<le> bitlen n" using n bitlen_eq_zero_iff [of n] bitlen_nonneg [of n] by linarith
  have "(2::int) ^ nat (bitlen n - 1) \<le> n" using bitlen_bounds [OF n] by simp
  then have "rat_of_int (2 ^ nat (bitlen n - 1)) \<le> of_int n" by (simp only: of_int_le_iff)
  also have "\<dots> \<le> \<bar>x\<bar>" by (simp add: n_def)
  finally have "(2::rat) ^ nat (bitlen n - 1) \<le> \<bar>x\<bar>" by simp
  moreover have "ilog2 x = bitlen n - 1" using True by (simp add: ilog2_def n_def)
  ultimately show ?thesis using b by (simp add: power_int_def)
next
  case False
  define m where "m = \<lceil>1 / \<bar>x\<bar>\<rceil> - 1"
  have x: "0 < \<bar>x\<bar>" "\<bar>x\<bar> < 1" using False assms by auto
  then have "1 < 1 / \<bar>x\<bar>" by (simp add: field_simps)
  then have "1 < \<lceil>1 / \<bar>x\<bar>\<rceil>" by (simp add: less_ceiling_iff)
  then have m: "0 < m" by (simp add: m_def)
  have b: "1 \<le> bitlen m" using m bitlen_eq_zero_iff [of m] bitlen_nonneg [of m] by linarith
  have "m < 2 ^ nat (bitlen m)" using bitlen_bounds [OF m] by simp
  then have "\<lceil>1 / \<bar>x\<bar>\<rceil> \<le> 2 ^ nat (bitlen m)" by (simp add: m_def)
  then have "1 / \<bar>x\<bar> \<le> of_int (2 ^ nat (bitlen m))" by (simp only: ceiling_le_iff)
  then have "1 / \<bar>x\<bar> \<le> 2 ^ nat (bitlen m)" by simp
  then have "1 \<le> 2 ^ nat (bitlen m) * \<bar>x\<bar>" using x by (simp add: field_simps)
  then have "1 / 2 ^ nat (bitlen m) \<le> \<bar>x\<bar>" by (simp add: field_simps)
  moreover have "ilog2 x = - bitlen m" using False by (simp add: ilog2_def m_def)
  ultimately show ?thesis using b by (simp add: power_int_def inverse_eq_divide power_one_over)
qed

lemma ilog2_less:
  assumes "x \<noteq> 0" and "\<bar>x\<bar> < 2 powi m"
  shows "ilog2 x < m"
proof (rule ccontr)
  assume "\<not> ilog2 x < m"
  then have "m \<le> ilog2 x" by simp
  then have "(2::rat) powi m \<le> 2 powi (ilog2 x)" by (intro power_int_increasing) simp_all
  with ilog2_le [OF assms(1)] assms(2) show False by linarith
qed

lemma ulp32_pos: "0 < ulp32 x"
  by (simp add: ulp32_def)

lemma f32_error: "\<bar>f32 x - x\<bar> \<le> ulp32 x / 2"
proof (cases "x = 0")
  case True
  then show ?thesis using ulp32_pos [of x] by (simp add: f32_def)
next
  case False
  let ?u = "ulp32 x"
  have u: "0 < ?u" by (rule ulp32_pos)
  have "f32 x - x = (of_int (round_even (x / ?u)) - x / ?u) * ?u"
    using False u by (simp add: f32_def field_simps)
  then have "\<bar>f32 x - x\<bar> = \<bar>of_int (round_even (x / ?u)) - x / ?u\<bar> * ?u"
    using u by (simp add: abs_mult)
  also have "\<dots> \<le> 1 / 2 * ?u"
    using round_even_error [of "x / ?u"] u by (intro mult_right_mono) simp_all
  finally show ?thesis by simp
qed

lemma f32_error_256:
  assumes "\<bar>x\<bar> < 256"
  shows "\<bar>f32 x - x\<bar> \<le> 1 / 2 ^ 17"
proof (cases "x = 0")
  case True
  then show ?thesis by (simp add: f32_def)
next
  case False
  have "\<bar>x\<bar> < 2 powi 8" using assms by simp
  then have "ilog2 x < 8" by (rule ilog2_less [OF False])
  then have "max (ilog2 x) (- 126) - 23 \<le> - 16" by simp
  then have "ulp32 x \<le> 2 powi (- 16)"
    unfolding ulp32_def by (intro power_int_increasing) simp_all
  then have "ulp32 x / 2 \<le> 1 / 2 ^ 17" by (simp add: power_int_minus_divide)
  with f32_error [of x] show ?thesis by linarith
qed

lemma f32_of_int:
  assumes "\<bar>n\<bar> < 2 ^ 24"
  shows "f32 (of_int n) = of_int n"
proof (cases "n = 0")
  case True
  then show ?thesis by (simp add: f32_def)
next
  case False
  let ?x = "rat_of_int n"
  have x0: "?x \<noteq> 0" using False by simp
  have "rat_of_int \<bar>n\<bar> < rat_of_int (2 ^ 24)" using assms by (simp only: of_int_less_iff)
  then have "\<bar>?x\<bar> < 2 powi 24" by simp
  then have hi: "ilog2 ?x < 24" by (rule ilog2_less [OF x0])
  have "1 \<le> \<bar>?x\<bar>" using False by (simp flip: of_int_abs)
  then have "ilog2 ?x = bitlen \<lfloor>\<bar>?x\<bar>\<rfloor> - 1" by (simp add: ilog2_def)
  moreover have "1 \<le> bitlen \<lfloor>\<bar>?x\<bar>\<rfloor>"
    using False bitlen_eq_zero_iff [of "\<lfloor>\<bar>?x\<bar>\<rfloor>"] bitlen_nonneg [of "\<lfloor>\<bar>?x\<bar>\<rfloor>"]
    by (simp flip: of_int_abs)
  ultimately have lo: "0 \<le> ilog2 ?x" by simp
  define k where "k = nat (23 - ilog2 ?x)"
  have "max (ilog2 ?x) (- 126) - 23 = - int k" using lo hi by (simp add: k_def)
  then have u: "ulp32 ?x = 1 / 2 ^ k" by (simp add: ulp32_def power_int_minus_divide)
  have "?x / ulp32 ?x = of_int (n * 2 ^ k)" by (simp add: u)
  then have "round_even (?x / ulp32 ?x) = n * 2 ^ k" by (simp only: round_even_of_int)
  then show ?thesis using x0 by (simp add: f32_def u)
qed

lemma f32_064: "f32 (64 / 100) = 5368709 / 8388608"
  by code_simp

lemma f32_63: "f32 63 = 63"
  using f32_of_int [of 63] by simp

lemma calculateThreshold_range:
  assumes lo: "- (395 / 10) \<le> v" and hi: "v \<le> 1225 / 10"
  defines "y \<equiv> fadd (fdiv v (f32 (64 / 100))) (f32 63)"
  shows "calculateThreshold v = Some (word_of_int \<lfloor>y\<rfloor>) \<and> 1 \<le> \<lfloor>y\<rfloor> \<and> \<lfloor>y\<rfloor> \<le> 254
         \<and> \<bar>y - (v / (64 / 100) + 63)\<bar> \<le> 1 / 2 ^ 15"
proof -
  define a where "a = v / (5368709 / 8388608)"
  define a1 where "a1 = f32 a"
  define b where "b = a1 + 63"
  have y: "y = f32 b"
    by (simp only: y_def fadd_def fdiv_def f32_064 f32_63 a_def a1_def b_def)
  have a_eq: "a = v * (8388608 / 5368709)" by (simp add: a_def)
  have a_bounds: "- 62 < a" "a < 192" using lo hi unfolding a_eq by linarith+
  then have "\<bar>a\<bar> < 256" by linarith
  then have "\<bar>a1 - a\<bar> \<le> 1 / 2 ^ 17" unfolding a1_def by (rule f32_error_256)
  then have e1: "\<bar>a1 - a\<bar> \<le> 1 / 131072" by simp
  have "\<bar>b\<bar> < 256" using e1 a_bounds unfolding b_def by linarith
  then have "\<bar>y - b\<bar> \<le> 1 / 2 ^ 17" unfolding y by (rule f32_error_256)
  then have e2: "\<bar>y - b\<bar> \<le> 1 / 131072" by simp
  have d: "a - v / (64 / 100) = v * (3 / 85899344)" by (simp add: a_eq field_simps)
  have e3: "\<bar>a - v / (64 / 100)\<bar> \<le> 1 / 131072"
    unfolding d using lo hi by linarith
  have "\<bar>y - (v / (64 / 100) + 63)\<bar> \<le> 1 / 32768"
    using e1 e2 e3 unfolding b_def by linarith
  then have close: "\<bar>y - (v / (64 / 100) + 63)\<bar> \<le> 1 / 2 ^ 15" by simp
  have v1: "128125 / 100000 \<le> v / (64 / 100) + 63" using lo by (simp add: field_simps)
  have v2: "v / (64 / 100) + 63 \<le> 25440625 / 100000" using hi by (simp add: field_simps)
  have y1: "1 \<le> y" using \<open>\<bar>y - (v / (64 / 100) + 63)\<bar> \<le> 1 / 32768\<close> v1 by linarith
  have y2: "y < 255" using \<open>\<bar>y - (v / (64 / 100) + 63)\<bar> \<le> 1 / 32768\<close> v2 by linarith
  have f1: "1 \<le> \<lfloor>y\<rfloor>" using y1 by (simp add: le_floor_iff)
  have f2: "\<lfloor>y\<rfloor> \<le> 254" using y2 by (simp add: floor_le_iff)
  have "calculateThreshold v = uint8_of_float y"
    by (simp only: calculateThreshold_def y_def Let_def)
  also have "\<dots> = Some (word_of_int \<lfloor>y\<rfloor>)"
    using y1 y2 by (simp add: uint8_of_float_def trunc_def)
  finally show ?thesis using f1 f2 close by simp
qed

subsection \<open>The 16-bit temperature\<close>

lemma raw16_bounds: "0 \<le> raw16 h l \<and> raw16 h l < 65536"
proof -
  have "push_bit 8 (uint h) < 2 ^ 16"
    using uint_lt2p [of h] by (simp add: push_bit_eq_mult)
  moreover have "uint l < 2 ^ 16"
    using uint_lt2p [of l] by simp
  ultimately have "push_bit 8 (uint h) OR uint l < 2 ^ 16"
    by (intro OR_upper) simp_all
  then show ?thesis by (simp add: raw16_def)
qed

lemma temp0_eq:
  "push_bit 8 (ucast (h::uint8) :: int32) OR ucast (l::uint8) = word_of_int (raw16 h l)"
  by (rule bit_word_eqI) (auto simp: raw16_def bit_simps dest: bit_imp_le_length)

lemma sint_small: "- (2 ^ 31) \<le> k \<Longrightarrow> k < 2 ^ 31 \<Longrightarrow> sint (word_of_int k :: int32) = k"
  by (simp add: sint_sbintrunc' signed_take_bit_int_eq_self)

lemma calculateTemp_int:
  "calculateTemp hOut lOut = fdiv (of_int (twos16 (raw16 hOut lOut))) 100"
proof -
  let ?r = "raw16 hOut lOut"
  have r: "0 \<le> ?r" "?r < 65536" using raw16_bounds [of hOut lOut] by simp_all
  let ?t0 = "word_of_int ?r :: int32"
  have s0: "sint ?t0 = ?r" using r by (intro sint_small) simp_all
  have c: "(push_bit 15 1 :: int32) \<le>s ?t0 \<longleftrightarrow> 32768 \<le> ?r"
    by (simp add: word_sle_eq s0)
  have "?t0 - push_bit 16 1 = word_of_int (?r - 65536)" by simp
  moreover have "sint (word_of_int (?r - 65536) :: int32) = ?r - 65536"
    using r by (intro sint_small) simp_all
  ultimately have s1: "sint (?t0 - push_bit 16 1) = ?r - 65536" by simp
  have t: "sint (if (push_bit 15 1 :: int32) \<le>s ?t0 then ?t0 - push_bit 16 1 else ?t0) = twos16 ?r"
    using c s0 s1 by (simp add: twos16_def)
  have "\<bar>twos16 ?r\<bar> < 2 ^ 24" using r by (simp add: twos16_def)
  then have f: "float_of_int (twos16 ?r) = of_int (twos16 ?r)"
    unfolding float_of_int_def by (rule f32_of_int)
  have h: "f32 100 = 100" using f32_of_int [of 100] by simp
  show ?thesis
    unfolding calculateTemp_def Let_def temp0_eq t f h ..
qed

lemma f32_error_512:
  assumes "\<bar>x\<bar> < 512"
  shows "\<bar>f32 x - x\<bar> \<le> 1 / 2 ^ 16"
proof (cases "x = 0")
  case True
  then show ?thesis by (simp add: f32_def)
next
  case False
  have "\<bar>x\<bar> < 2 powi 9" using assms by simp
  then have "ilog2 x < 9" by (rule ilog2_less [OF False])
  then have "max (ilog2 x) (- 126) - 23 \<le> - 15" by simp
  then have "ulp32 x \<le> 2 powi (- 15)"
    unfolding ulp32_def by (intro power_int_increasing) simp_all
  then have "ulp32 x / 2 \<le> 1 / 2 ^ 16" by (simp add: power_int_minus_divide)
  with f32_error [of x] show ?thesis by linarith
qed

lemma twos16_bounds: "- 32768 \<le> twos16 (raw16 h l) \<and> twos16 (raw16 h l) < 32768"
  using raw16_bounds [of h l] by (simp add: twos16_def)

lemma calculateTemp_close:
  "\<bar>calculateTemp h l - of_int (twos16 (raw16 h l)) / 100\<bar> \<le> 1 / 2 ^ 16"
proof -
  let ?t = "twos16 (raw16 h l)"
  have "rat_of_int (- 32768) \<le> rat_of_int ?t" "rat_of_int ?t < rat_of_int 32768"
    using twos16_bounds [of h l] by (simp_all only: of_int_le_iff of_int_less_iff)
  then have "- 32768 \<le> rat_of_int ?t" "rat_of_int ?t < 32768" by simp_all
  then have "\<bar>rat_of_int ?t / 100\<bar> < 512" by (simp add: abs_less_iff)
  then show ?thesis
    unfolding calculateTemp_int fdiv_def by (rule f32_error_512)
qed

lemma calculateTemp_400: "calculateTemp 0x01 0x90 = 4"
  by code_simp

lemma sentinel: "f32 (- (27315 / 100)) = - (8950579 / 32768)"
  by code_simp

subsection \<open>The threshold code at particular values\<close>

lemma calculateThreshold_values:
  "calculateThreshold 0 = Some 63"
  "calculateThreshold (- (395 / 10)) = Some 1"
  "calculateThreshold (1225 / 10) = Some 254"
  "calculateThreshold 100 = Some 219"
  by code_simp+

lemma uint8_of_float_Some:
  assumes "uint8_of_float y = Some c"
  shows "uint c = trunc y"
proof -
  have y: "- 1 < y" "y < 256" and c: "c = word_of_int (trunc y)"
    using assms by (auto simp: uint8_of_float_def split: if_splits)
  have "0 \<le> trunc y"
    using y(1) by (auto simp: trunc_def le_ceiling_iff)
  moreover have "trunc y < 256"
    using y(2) by (auto simp: trunc_def floor_less_iff ceiling_less_iff)
  ultimately show ?thesis
    unfolding c by (simp add: uint_word_of_int)
qed

lemma calculateThreshold_Some:
  "calculateThreshold v = Some c \<Longrightarrow> uint c = trunc (fadd (fdiv v (f32 (64 / 100))) (f32 63))"
  by (rule uint8_of_float_Some) (simp only: calculateThreshold_def Let_def)

section \<open>Properties of the state machine\<close>

lemma update_busy:
  "transport_busy h (i2c s) \<Longrightarrow> STTS22H_update h s = \<lparr>ret = (), calls = [], dev = s\<rparr>"
  by (simp add: STTS22H_update_def transport_busy_def)

lemma poll_busy:
  "\<forall>h\<in>set hs. transport_busy h (i2c s) \<Longrightarrow> poll hs s = \<lparr>ret = (), calls = [], dev = s\<rparr>"
  by (induction hs) (simp_all add: update_busy)

lemma poll_append:
  "poll (hs @ hs') s =
     \<lparr>ret = (), calls = calls (poll hs s) @ calls (poll hs' (dev (poll hs s))),
      dev = dev (poll hs' (dev (poll hs s)))\<rparr>"
  by (induction hs arbitrary: s) (simp_all add: Let_def)

lemma poll_busy_then:
  assumes "\<forall>h\<in>set hs. transport_busy h (i2c s)"
  shows "poll (hs @ h # hs') s =
     \<lparr>ret = (), calls = calls (STTS22H_update h s) @ calls (poll hs' (dev (STTS22H_update h s))),
      dev = dev (poll hs' (dev (STTS22H_update h s)))\<rparr>"
  by (simp add: poll_append poll_busy [OF assms] Let_def)

lemma update_issue_read:
  assumes "isInit s" "isReading s" "\<not> addrSent s" "\<not> transport_busy h (i2c s)"
    and "I2C_readData h (i2c s) (devAddr s) (unat (dataSize s)) = I2C_SUCCESS h"
  shows "STTS22H_update h s =
     \<lparr>ret = (), calls = [ReadData (i2c s) (devAddr s) (unat (dataSize s))],
      dev = s\<lparr>addrSent := True\<rparr>\<rparr>"
  using assms by (simp add: STTS22H_update_def transport_busy_def)

lemma update_read_done:
  assumes "isInit s" "isReading s" "addrSent s" "\<not> transport_busy h (i2c s)"
  shows "STTS22H_update h s =
     \<lparr>ret = (), calls = [],
      dev = (if I2C_isFailed h (i2c s) then s\<lparr>addrSent := False, isReading := False\<rparr>
             else decode (I2C_getReceivedData h (i2c s)) (s\<lparr>addrSent := False, isReading := False\<rparr>))\<rparr>"
  using assms by (simp add: STTS22H_update_def transport_busy_def)

lemma decode_frame:
  "isInit (decode d s) = isInit s \<and> i2c (decode d s) = i2c s \<and> devAddr (decode d s) = devAddr s
   \<and> settings (decode d s) = settings s \<and> isReading (decode d s) = isReading s
   \<and> addrSent (decode d s) = addrSent s \<and> regAddr (decode d s) = regAddr s
   \<and> dataSize (decode d s) = dataSize s"
  by (simp add: decode_def Let_def)

lemma measure_accepted:
  assumes "isInit s" "\<not> isReading s"
    and "I2C_writeData h (i2c s) (devAddr s) [STATUS_ADDR] 1 False = I2C_SUCCESS h"
  shows "STTS22H_measure h s =
     \<lparr>ret = I2C_SUCCESS h, calls = [WriteData (i2c s) (devAddr s) [STATUS_ADDR] 1 False],
      dev = s\<lparr>regAddr := STATUS_ADDR, dataSize := 3, isReading := True\<rparr>\<rparr>"
  using assms by (simp add: STTS22H_measure_def Let_def)

lemma trigger_started:
  assumes "isInit s0" "\<not> isReading s0"
    and "s1 = dev (STTS22H_measure h0 s0) \<or> s1 = dev (STTS22H_checkConnection h0 s0)"
    and "isReading s1"
  shows "s1 = s0\<lparr>regAddr := regAddr s1, dataSize := dataSize s1, isReading := True\<rparr>"
  using assms
  by (auto simp: STTS22H_measure_def STTS22H_checkConnection_def Let_def split: if_splits)

lemma decode_status:
  assumes "regAddr s = STATUS_ADDR"
  shows "decode d s =
     (if status_busy (d 0) then s\<lparr>status := d 0\<rparr>
      else s\<lparr>status := d 0, temp := calculateTemp (d 2) (d 1)\<rparr>)"
  using assms
  by (simp add: decode_def Let_def STATUS_ADDR_def WHOAMI_ADDR_def TEMP_H_LIMIT_ADDR_def CTRL_ADDR_def)

lemma setting_init:
  assumes "isInit s"
  shows "STTS22H_setting h s c =
     \<lparr>ret = I2C_writeData h (i2c s) (devAddr s) [CTRL_ADDR, c] 2 True,
      calls = [WriteData (i2c s) (devAddr s) [CTRL_ADDR, c] 2 True],
      dev = (if I2C_writeData h (i2c s) (devAddr s) [CTRL_ADDR, c] 2 True = I2C_SUCCESS h
             then s\<lparr>settings := c\<rparr> else s)\<rparr>"
  using assms by (simp add: STTS22H_setting_def Let_def)

lemma setLimits_dev:
  "STTS22H_setLimits h s lo hi b = Some out \<Longrightarrow> dev out = s"
  by (auto simp: STTS22H_setLimits_def split: if_splits option.splits)

lemma setLimits_wrong_data:
  assumes "isInit s" "lo < - (395 / 10) \<or> 1225 / 10 < hi"
  shows "STTS22H_setLimits h s lo hi b =
     Some \<lparr>ret = STTS22H_WRONG_DATA h, calls = [], dev = s\<rparr>"
  using assms by (auto simp: STTS22H_setLimits_def)

lemma setLimits_off:
  assumes "isInit s" "- (395 / 10) \<le> lo" "hi \<le> 1225 / 10"
  shows "STTS22H_setLimits h s lo hi False =
     Some \<lparr>ret = I2C_writeData h (i2c s) (devAddr s) [TEMP_H_LIMIT_ADDR, 0, 0] 3 True,
           calls = [WriteData (i2c s) (devAddr s) [TEMP_H_LIMIT_ADDR, 0, 0] 3 True],
           dev = s\<rparr>"
  using assms by (simp add: STTS22H_setLimits_def)

lemma setLimits_on:
  assumes "isInit s"
    and "- (395 / 10) \<le> lo" "lo \<le> 1225 / 10" "- (395 / 10) \<le> hi" "hi \<le> 1225 / 10"
  shows "\<exists>d1 d2. calculateThreshold hi = Some d1 \<and> calculateThreshold lo = Some d2 \<and>
     STTS22H_setLimits h s lo hi True =
       Some \<lparr>ret = I2C_writeData h (i2c s) (devAddr s) [TEMP_H_LIMIT_ADDR, d1, d2] 3 True,
             calls = [WriteData (i2c s) (devAddr s) [TEMP_H_LIMIT_ADDR, d1, d2] 3 True],
             dev = s\<rparr>"
proof -
  obtain d1 where d1: "calculateThreshold hi = Some d1"
    using calculateThreshold_range [OF assms(4,5)] by blast
  obtain d2 where d2: "calculateThreshold lo = Some d2"
    using calculateThreshold_range [OF assms(2,3)] by blast
  have "STTS22H_setLimits h s lo hi True =
       Some \<lparr>ret = I2C_writeData h (i2c s) (devAddr s) [TEMP_H_LIMIT_ADDR, d1, d2] 3 True,
             calls = [WriteData (i2c s) (devAddr s) [TEMP_H_LIMIT_ADDR, d1, d2] 3 True],
             dev = s\<rparr>"
    using assms(1,2,5) by (simp add: STTS22H_setLimits_def d1 d2)
  with d1 d2 show ?thesis by blast
qed

text \<open>
  The phase flag \<^verbatim>\<open>addrSent\<close> is set only while \<^verbatim>\<open>isReading\<close> is: every
  function of the driver keeps this, so a device on which no transaction is in flight has
  both flags clear.
\<close>

lemma phase_only_while_busy:
  assumes "addrSent s \<longrightarrow> isReading s"
  shows "addrSent (dev (STTS22H_update h s)) \<longrightarrow> isReading (dev (STTS22H_update h s))"
    and "addrSent (dev (STTS22H_measure h s)) \<longrightarrow> isReading (dev (STTS22H_measure h s))"
    and "addrSent (dev (STTS22H_checkConnection h s))
         \<longrightarrow> isReading (dev (STTS22H_checkConnection h s))"
    and "addrSent (dev (STTS22H_setting h s c)) \<longrightarrow> isReading (dev (STTS22H_setting h s c))"
    and "STTS22H_setLimits h s lo hi b = Some out \<Longrightarrow> addrSent (dev out) \<longrightarrow> isReading (dev out)"
    and "STTS22H_init h (Some s) p a = out' \<Longrightarrow> dev out' = Some s' \<Longrightarrow> addrSent s' \<longrightarrow> isReading s'"
  using assms setLimits_dev [of h s lo hi b out]
  by (auto simp: STTS22H_update_def STTS22H_measure_def STTS22H_checkConnection_def
      STTS22H_setting_def STTS22H_init_def Let_def decode_frame split: if_splits)

subsection \<open>The example devices and transports\<close>

lemma test_dev_simps:
  "isInit test_dev" "\<not> isReading test_dev" "\<not> addrSent test_dev"
  "i2c test_dev = 1" "devAddr test_dev = 0x3C"
  by (simp_all add: test_dev_def zero_dev_def)

lemma test_dev_busy_simps:
  "isInit test_dev_busy" "isReading test_dev_busy" "\<not> addrSent test_dev_busy"
  "i2c test_dev_busy = 1" "devAddr test_dev_busy = 0x3C"
  "regAddr test_dev_busy = 0x05" "dataSize test_dev_busy = 3"
  by (simp_all add: test_dev_busy_def test_dev_def zero_dev_def)

lemma test_i2c_simps:
  "I2C_SUCCESS (test_i2c b f) = 0" "I2C_NUMBER_ERRORS (test_i2c b f) = 4"
  "I2C_writeData (test_i2c b f) p a d n stop = 0" "I2C_readData (test_i2c b f) p a n = 0"
  "transport_busy (test_i2c b f) p = b" "I2C_isFailed (test_i2c b f) p = f"
  "I2C_getReceivedData (test_i2c b f) p 0 = 0x00"
  "I2C_getReceivedData (test_i2c b f) p 1 = 0x90"
  "I2C_getReceivedData (test_i2c b f) p 2 = 0x01"
  by (simp_all add: test_i2c_def transport_busy_def)

lemma test_i2c_data_1: "I2C_getReceivedData (test_i2c b f) p (Suc 0) = 0x90"
  by (simp add: test_i2c_def)

section \<open>The claims of the specification\<close>

subsection \<open>C1: a measurement, end to end\<close>

text \<open>
  Claim C1. On an initialized device with no transaction in flight (\<^verbatim>\<open>isReading\<close> and
  \<^verbatim>\<open>addrSent\<close> clear), \<^verbatim>\<open>STTS22H_measure\<close>, its write accepted, requests the write
  of the one byte \<^verbatim>\<open>STATUS_ADDR\<close> and sets \<^verbatim>\<open>isReading\<close>. The caller then polls
  \<^verbatim>\<open>STTS22H_update\<close>: the calls that find the transport in progress do nothing; the
  first call that finds it idle requests a read of 3 bytes; the second call that finds it
  idle, the transfer not failed and the bytes \<open>0x00, 0x90, 0x01\<close> received, stores the
  temperature, and \<^verbatim>\<open>STTS22H_getTemp_C\<close> returns \<open>4\<close>.
\<close>

theorem measure_poll_reads_4_degrees:
  assumes "isInit stts" and "\<not> isReading stts" and "\<not> addrSent stts"
    and "I2C_writeData h0 (i2c stts) (devAddr stts) [STATUS_ADDR] 1 False = I2C_SUCCESS h0"
    and "\<forall>h\<in>set hs1. transport_busy h (i2c stts)"
    and "\<not> transport_busy h1 (i2c stts)"
    and "I2C_readData h1 (i2c stts) (devAddr stts) 3 = I2C_SUCCESS h1"
    and "\<forall>h\<in>set hs2. transport_busy h (i2c stts)"
    and "\<not> transport_busy h2 (i2c stts)" and "\<not> I2C_isFailed h2 (i2c stts)"
    and "map (I2C_getReceivedData h2 (i2c stts)) [0, 1, 2] = [0x00, 0x90, 0x01]"
  shows "calls (STTS22H_measure h0 stts) = [WriteData (i2c stts) (devAddr stts) [STATUS_ADDR] 1 False]
    \<and> isReading (dev (STTS22H_measure h0 stts))
    \<and> calls (poll (hs1 @ [h1]) (dev (STTS22H_measure h0 stts)))
        = [ReadData (i2c stts) (devAddr stts) 3]
    \<and> calls (poll (hs1 @ [h1] @ hs2 @ [h2]) (dev (STTS22H_measure h0 stts)))
        = [ReadData (i2c stts) (devAddr stts) 3]
    \<and> STTS22H_getTemp_C (dev (poll (hs1 @ [h1] @ hs2 @ [h2]) (dev (STTS22H_measure h0 stts)))) = 4
    \<and> \<not> isReading (dev (poll (hs1 @ [h1] @ hs2 @ [h2]) (dev (STTS22H_measure h0 stts))))"
proof -
  let ?s1 = "stts\<lparr>regAddr := STATUS_ADDR, dataSize := 3, isReading := True\<rparr>"
  let ?s2 = "?s1\<lparr>addrSent := True\<rparr>"
  let ?d = "I2C_getReceivedData h2 (i2c stts)"
  have m: "STTS22H_measure h0 stts =
      \<lparr>ret = I2C_SUCCESS h0, calls = [WriteData (i2c stts) (devAddr stts) [STATUS_ADDR] 1 False],
       dev = ?s1\<rparr>"
    using assms(1,2,4) by (rule measure_accepted)
  have u1: "STTS22H_update h1 ?s1 =
      \<lparr>ret = (), calls = [ReadData (i2c stts) (devAddr stts) 3], dev = ?s2\<rparr>"
    using update_issue_read [of ?s1 h1] assms(1,3,6,7) by simp
  have d: "?d 0 = 0x00" "?d (Suc 0) = 0x90" "?d 2 = 0x01" using assms(11) by simp_all
  have "STTS22H_update h2 ?s2 =
      \<lparr>ret = (), calls = [],
       dev = decode ?d (?s2\<lparr>addrSent := False, isReading := False\<rparr>)\<rparr>"
    using update_read_done [of ?s2 h2] assms(1,9,10) by simp
  moreover have "decode ?d (?s2\<lparr>addrSent := False, isReading := False\<rparr>) =
      ?s2\<lparr>addrSent := False, isReading := False, status := 0, temp := 4\<rparr>"
    by (simp add: decode_status d status_busy_def calculateTemp_400)
  ultimately have u2: "STTS22H_update h2 ?s2 =
      \<lparr>ret = (), calls = [],
       dev = ?s2\<lparr>addrSent := False, isReading := False, status := 0, temp := 4\<rparr>\<rparr>"
    by simp
  have p1: "poll (hs1 @ [h1]) ?s1 =
      \<lparr>ret = (), calls = [ReadData (i2c stts) (devAddr stts) 3], dev = ?s2\<rparr>"
    using poll_busy_then [of hs1 ?s1 h1 "[]"] assms(5) by (simp add: u1)
  have p2: "poll (hs2 @ [h2]) ?s2 =
      \<lparr>ret = (), calls = [],
       dev = ?s2\<lparr>addrSent := False, isReading := False, status := 0, temp := 4\<rparr>\<rparr>"
    using poll_busy_then [of hs2 ?s2 h2 "[]"] assms(8) by (simp add: u2)
  have p: "poll (hs1 @ h1 # hs2 @ [h2]) ?s1 =
      \<lparr>ret = (), calls = [ReadData (i2c stts) (devAddr stts) 3],
       dev = ?s2\<lparr>addrSent := False, isReading := False, status := 0, temp := 4\<rparr>\<rparr>"
    using poll_busy_then [of hs1 ?s1 h1 "hs2 @ [h2]"] assms(5) by (simp add: u1 p2)
  show ?thesis
    by (simp add: m p p1 STTS22H_getTemp_C_def)
qed

text \<open>
  Claim C1 at the example device: one call finds the transport writing, the next finds it
  idle, two find it busy with the read, the last finds the read finished.
\<close>

theorem measure_poll_reads_4_degrees_witness:
  "STTS22H_getTemp_C (dev (poll
      ([test_i2c True False] @ [test_i2c False False]
       @ [test_i2c True False, test_i2c True False] @ [test_i2c False False])
      (dev (STTS22H_measure (test_i2c False False) test_dev)))) = 4"
proof -
  have "map (I2C_getReceivedData (test_i2c False False) (i2c test_dev)) [0, 1, 2]
      = [0x00, 0x90, 0x01]"
    by (simp only: list.map test_i2c_simps)
  then show ?thesis
    using measure_poll_reads_4_degrees [of test_dev "test_i2c False False" "[test_i2c True False]"
      "test_i2c False False" "[test_i2c True False, test_i2c True False]" "test_i2c False False"]
    by (simp only: test_dev_simps test_i2c_simps list.set ball_simps not_False_eq_True
        not_True_eq_False simp_thms)
qed

subsection \<open>C2: the configuration and threshold writes on a busy device\<close>

text \<open>
  Claim C2 fails. On the initialized example device with a measurement in flight,
  \<^verbatim>\<open>STTS22H_setting\<close> does not return \<^verbatim>\<open>STTS22H_BUSY\<close> and requests its two-byte
  write, and \<^verbatim>\<open>STTS22H_setLimits\<close> requests its three-byte write: neither function
  reads \<^verbatim>\<open>isReading\<close>.
\<close>

theorem busy_setting_counterexample:
  "isInit test_dev_busy \<and> isReading test_dev_busy
   \<and> ret (STTS22H_setting (test_i2c False False) test_dev_busy 0x08)
       \<noteq> STTS22H_BUSY (test_i2c False False)
   \<and> calls (STTS22H_setting (test_i2c False False) test_dev_busy 0x08)
       = [WriteData 1 0x3C [0x04, 0x08] 2 True]
   \<and> STTS22H_setLimits (test_i2c False False) test_dev_busy 0 10 False
       = Some \<lparr>ret = 0, calls = [WriteData 1 0x3C [0x02, 0, 0] 3 True], dev = test_dev_busy\<rparr>"
  by (simp add: setting_init setLimits_off test_dev_busy_simps test_i2c_simps
      STTS22H_BUSY_def CTRL_ADDR_def TEMP_H_LIMIT_ADDR_def)

text \<open>
  Claim C2, amended. On an initialized device whose flag \<^verbatim>\<open>isReading\<close> is set,
  \<^verbatim>\<open>STTS22H_setting\<close> and \<^verbatim>\<open>STTS22H_setLimits\<close> leave \<^verbatim>\<open>isReading\<close>,
  \<^verbatim>\<open>addrSent\<close>, \<^verbatim>\<open>regAddr\<close> and \<^verbatim>\<open>dataSize\<close> as they are, but the flag does
  not stop them: \<^verbatim>\<open>STTS22H_setting\<close> requests its write of two bytes and returns the
  result of the transport; \<^verbatim>\<open>STTS22H_setLimits\<close> returns \<^verbatim>\<open>STTS22H_WRONG_DATA\<close>
  without a transfer when its range check fails, and otherwise (the limits disabled, or
  enabled with both bounds from \<open>-39.5\<close> to \<open>122.5\<close>) requests its write of three
  bytes and returns the result of the transport.
\<close>

theorem busy_writes_keep_bookkeeping:
  assumes "isInit stts" and "isReading stts"
  shows "STTS22H_setting h stts controlReg =
       \<lparr>ret = I2C_writeData h (i2c stts) (devAddr stts) [CTRL_ADDR, controlReg] 2 True,
        calls = [WriteData (i2c stts) (devAddr stts) [CTRL_ADDR, controlReg] 2 True],
        dev = (if I2C_writeData h (i2c stts) (devAddr stts) [CTRL_ADDR, controlReg] 2 True
                  = I2C_SUCCESS h
               then stts\<lparr>settings := controlReg\<rparr> else stts)\<rparr>
    \<and> isReading (dev (STTS22H_setting h stts controlReg)) = isReading stts
    \<and> addrSent (dev (STTS22H_setting h stts controlReg)) = addrSent stts
    \<and> regAddr (dev (STTS22H_setting h stts controlReg)) = regAddr stts
    \<and> dataSize (dev (STTS22H_setting h stts controlReg)) = dataSize stts
    \<and> (\<forall>out. STTS22H_setLimits h stts minTemp maxTemp isSetLimits = Some out \<longrightarrow> dev out = stts)
    \<and> (minTemp < - (395 / 10) \<or> 1225 / 10 < maxTemp \<longrightarrow>
        STTS22H_setLimits h stts minTemp maxTemp isSetLimits =
          Some \<lparr>ret = STTS22H_WRONG_DATA h, calls = [], dev = stts\<rparr>)
    \<and> (- (395 / 10) \<le> minTemp \<and> maxTemp \<le> 1225 / 10 \<longrightarrow>
        STTS22H_setLimits h stts minTemp maxTemp False =
          Some \<lparr>ret = I2C_writeData h (i2c stts) (devAddr stts) [TEMP_H_LIMIT_ADDR, 0, 0] 3 True,
                calls = [WriteData (i2c stts) (devAddr stts) [TEMP_H_LIMIT_ADDR, 0, 0] 3 True],
                dev = stts\<rparr>)
    \<and> (- (395 / 10) \<le> minTemp \<and> minTemp \<le> 1225 / 10
        \<and> - (395 / 10) \<le> maxTemp \<and> maxTemp \<le> 1225 / 10 \<longrightarrow>
        (\<exists>d1 d2. calculateThreshold maxTemp = Some d1 \<and> calculateThreshold minTemp = Some d2 \<and>
           STTS22H_setLimits h stts minTemp maxTemp True =
             Some \<lparr>ret = I2C_writeData h (i2c stts) (devAddr stts) [TEMP_H_LIMIT_ADDR, d1, d2] 3 True,
                   calls = [WriteData (i2c stts) (devAddr stts) [TEMP_H_LIMIT_ADDR, d1, d2] 3 True],
                   dev = stts\<rparr>))"
proof -
  note s = setting_init [OF assms(1), of h controlReg]
  have b: "isReading (dev (STTS22H_setting h stts controlReg)) = isReading stts"
    "addrSent (dev (STTS22H_setting h stts controlReg)) = addrSent stts"
    "regAddr (dev (STTS22H_setting h stts controlReg)) = regAddr stts"
    "dataSize (dev (STTS22H_setting h stts controlReg)) = dataSize stts"
    by (simp_all add: s)
  show ?thesis
    using s b setLimits_dev [of h stts minTemp maxTemp isSetLimits]
      setLimits_wrong_data [OF assms(1), of minTemp maxTemp h isSetLimits]
      setLimits_off [OF assms(1), of minTemp maxTemp h]
      setLimits_on [OF assms(1), of minTemp maxTemp h]
    by blast
qed

text \<open>
  Claim C2, amended, at the example device with a measurement in flight.
\<close>

theorem busy_writes_keep_bookkeeping_witness:
  "ret (STTS22H_setting (test_i2c False False) test_dev_busy 0x08) = 0
   \<and> calls (STTS22H_setting (test_i2c False False) test_dev_busy 0x08)
       = [WriteData 1 0x3C [CTRL_ADDR, 0x08] 2 True]
   \<and> isReading (dev (STTS22H_setting (test_i2c False False) test_dev_busy 0x08))
   \<and> STTS22H_setLimits (test_i2c False False) test_dev_busy 0 10 False
       = Some \<lparr>ret = 0, calls = [WriteData 1 0x3C [TEMP_H_LIMIT_ADDR, 0, 0] 3 True],
               dev = test_dev_busy\<rparr>
   \<and> STTS22H_setLimits (test_i2c False False) test_dev_busy (- 40) 10 False
       = Some \<lparr>ret = - 6, calls = [], dev = test_dev_busy\<rparr>"
proof -
  note t = busy_writes_keep_bookkeeping [OF test_dev_busy_simps(1,2), of "test_i2c False False"]
  have "(0::rat) < 1225 / 10 \<and> - (395 / 10) \<le> (0::rat) \<and> (10::rat) \<le> 1225 / 10
    \<and> (- 40 :: rat) < - (395 / 10)" by simp
  then show ?thesis
    using t [of "0x08" 0 10 False] t [of "0x08" "- 40" 10 False]
    by (simp add: test_dev_busy_simps test_i2c_simps STTS22H_WRONG_DATA_def)
qed

subsection \<open>C3: the status register decoded\<close>

text \<open>
  Claim C3. When \<^verbatim>\<open>STTS22H_update\<close> finishes a transaction on \<^verbatim>\<open>STATUS_ADDR\<close> and
  the transport reports no failure, \<^verbatim>\<open>status\<close> becomes byte 0 of the received data.
  If the busy bit of that byte is clear, \<^verbatim>\<open>temp\<close> becomes the single-precision
  quotient by 100 of \<open>(byte2 << 8) | byte1\<close> read as a 16-bit two's-complement integer,
  which is within \<open>2\<^sup>-\<^sup>1\<^sup>6\<close> of the exact quotient; if the bit is set, \<^verbatim>\<open>temp\<close> is
  unchanged. Both flags of the transaction are cleared and no transfer is requested.
\<close>

theorem status_read_decoded:
  assumes "isInit stts" and "isReading stts" and "addrSent stts"
    and "regAddr stts = STATUS_ADDR"
    and "\<not> transport_busy h (i2c stts)" and "\<not> I2C_isFailed h (i2c stts)"
  shows "status (dev (STTS22H_update h stts)) = I2C_getReceivedData h (i2c stts) 0
    \<and> (\<not> status_busy (I2C_getReceivedData h (i2c stts) 0) \<longrightarrow>
         temp (dev (STTS22H_update h stts)) =
           fdiv (of_int (twos16 (raw16 (I2C_getReceivedData h (i2c stts) 2)
                                       (I2C_getReceivedData h (i2c stts) 1)))) 100
         \<and> \<bar>temp (dev (STTS22H_update h stts))
              - of_int (twos16 (raw16 (I2C_getReceivedData h (i2c stts) 2)
                                      (I2C_getReceivedData h (i2c stts) 1))) / 100\<bar> \<le> 1 / 2 ^ 16)
    \<and> (status_busy (I2C_getReceivedData h (i2c stts) 0) \<longrightarrow>
         temp (dev (STTS22H_update h stts)) = temp stts)
    \<and> \<not> isReading (dev (STTS22H_update h stts)) \<and> \<not> addrSent (dev (STTS22H_update h stts))
    \<and> calls (STTS22H_update h stts) = []"
proof -
  let ?d = "I2C_getReceivedData h (i2c stts)"
  let ?s1 = "stts\<lparr>addrSent := False, isReading := False\<rparr>"
  have u: "STTS22H_update h stts = \<lparr>ret = (), calls = [], dev = decode ?d ?s1\<rparr>"
    using update_read_done [OF assms(1,2,3,5)] assms(6) by simp
  have r: "regAddr ?s1 = STATUS_ADDR" using assms(4) by simp
  show ?thesis
    unfolding u decode_status [OF r]
    using calculateTemp_close [of "?d 2" "?d 1"]
    by (simp add: calculateTemp_int)
qed

text \<open>
  Claim C3 at the example device in its read phase, the received bytes \<open>0x00, 0x90, 0x01\<close>.
\<close>

theorem status_read_decoded_witness:
  "status (dev (STTS22H_update (test_i2c False False) (test_dev_busy\<lparr>addrSent := True\<rparr>))) = 0
   \<and> temp (dev (STTS22H_update (test_i2c False False) (test_dev_busy\<lparr>addrSent := True\<rparr>))) = 4"
proof -
  have e: "fdiv (of_int (twos16 (raw16 0x01 0x90))) 100 = 4" by code_simp
  have "regAddr (test_dev_busy\<lparr>addrSent := True\<rparr>) = STATUS_ADDR"
    by (simp add: test_dev_busy_simps STATUS_ADDR_def)
  then show ?thesis
    using status_read_decoded [of "test_dev_busy\<lparr>addrSent := True\<rparr>" "test_i2c False False"]
    by (simp add: test_dev_busy_simps test_i2c_simps test_i2c_data_1 status_busy_def e)
qed

subsection \<open>C4: a read that fails\<close>

text \<open>
  Claim C4. A transaction is started on an idle initialized device by
  \<^verbatim>\<open>STTS22H_measure\<close> or \<^verbatim>\<open>STTS22H_checkConnection\<close>, and the caller polls; the read
  is requested, and the call of \<^verbatim>\<open>STTS22H_update\<close> that finds it finished finds the
  transport failed. Then \<^verbatim>\<open>temp\<close>, \<^verbatim>\<open>isConnected\<close> and \<^verbatim>\<open>status\<close> are what
  they were before the transaction started, \<^verbatim>\<open>isReading\<close> and \<^verbatim>\<open>addrSent\<close> are
  clear, and nothing was decoded: the structure is the one the trigger left, with
  \<^verbatim>\<open>isReading\<close> cleared.
\<close>

theorem failed_read_keeps_cache:
  assumes "isInit s0" and "\<not> isReading s0" and "\<not> addrSent s0"
    and "s1 = dev (STTS22H_measure h0 s0) \<or> s1 = dev (STTS22H_checkConnection h0 s0)"
    and "isReading s1"
    and "\<forall>h\<in>set hs1. transport_busy h (i2c s0)"
    and "\<not> transport_busy h1 (i2c s0)"
    and "I2C_readData h1 (i2c s0) (devAddr s0) (unat (dataSize s1)) = I2C_SUCCESS h1"
    and "\<forall>h\<in>set hs2. transport_busy h (i2c s0)"
    and "\<not> transport_busy h2 (i2c s0)" and "I2C_isFailed h2 (i2c s0)"
  shows "dev (poll (hs1 @ [h1] @ hs2 @ [h2]) s1) = s1\<lparr>isReading := False\<rparr>
    \<and> temp (dev (poll (hs1 @ [h1] @ hs2 @ [h2]) s1)) = temp s0
    \<and> isConnected (dev (poll (hs1 @ [h1] @ hs2 @ [h2]) s1)) = isConnected s0
    \<and> status (dev (poll (hs1 @ [h1] @ hs2 @ [h2]) s1)) = status s0
    \<and> \<not> isReading (dev (poll (hs1 @ [h1] @ hs2 @ [h2]) s1))
    \<and> \<not> addrSent (dev (poll (hs1 @ [h1] @ hs2 @ [h2]) s1))
    \<and> calls (poll (hs1 @ [h1] @ hs2 @ [h2]) s1)
        = [ReadData (i2c s0) (devAddr s0) (unat (dataSize s1))]"
proof -
  note s1 = trigger_started [OF assms(1,2,4,5)]
  have f: "isInit s1" "isReading s1" "\<not> addrSent s1" "i2c s1 = i2c s0" "devAddr s1 = devAddr s0"
    "temp s1 = temp s0" "isConnected s1 = isConnected s0" "status s1 = status s0"
    using assms(1,3) by (subst s1, simp)+
  let ?s2 = "s1\<lparr>addrSent := True\<rparr>"
  have u1: "STTS22H_update h1 s1 =
      \<lparr>ret = (), calls = [ReadData (i2c s0) (devAddr s0) (unat (dataSize s1))], dev = ?s2\<rparr>"
    using update_issue_read [of s1 h1] f assms(7,8) by simp
  have u2: "STTS22H_update h2 ?s2 =
      \<lparr>ret = (), calls = [], dev = ?s2\<lparr>addrSent := False, isReading := False\<rparr>\<rparr>"
    using update_read_done [of ?s2 h2] f assms(10,11) by simp
  have p2: "poll (hs2 @ [h2]) ?s2 =
      \<lparr>ret = (), calls = [], dev = ?s2\<lparr>addrSent := False, isReading := False\<rparr>\<rparr>"
    using poll_busy_then [of hs2 ?s2 h2 "[]"] assms(9) f by (simp add: u2)
  have p: "poll (hs1 @ h1 # hs2 @ [h2]) s1 =
      \<lparr>ret = (), calls = [ReadData (i2c s0) (devAddr s0) (unat (dataSize s1))],
       dev = ?s2\<lparr>addrSent := False, isReading := False\<rparr>\<rparr>"
    using poll_busy_then [of hs1 s1 h1 "hs2 @ [h2]"] assms(6) f by (simp add: u1 p2)
  have e: "?s2\<lparr>addrSent := False, isReading := False\<rparr> = s1\<lparr>isReading := False\<rparr>"
    using f(3) by simp
  show ?thesis
    using f by (simp add: p e)
qed

text \<open>
  Claim C4 at the example device: a measurement whose read fails.
\<close>

theorem failed_read_keeps_cache_witness:
  "dev (poll ([test_i2c True False] @ [test_i2c False False] @ [test_i2c True True]
          @ [test_i2c False True]) (dev (STTS22H_measure (test_i2c False False) test_dev)))
     = test_dev\<lparr>regAddr := STATUS_ADDR, dataSize := 3\<rparr>
   \<and> temp (dev (poll ([test_i2c True False] @ [test_i2c False False] @ [test_i2c True True]
          @ [test_i2c False True]) (dev (STTS22H_measure (test_i2c False False) test_dev))))
     = temp test_dev"
proof -
  have m: "dev (STTS22H_measure (test_i2c False False) test_dev)
      = test_dev\<lparr>regAddr := STATUS_ADDR, dataSize := 3, isReading := True\<rparr>"
    by (simp add: measure_accepted test_dev_simps test_i2c_simps)
  have r: "I2C_readData (test_i2c False False) (i2c test_dev) (devAddr test_dev)
      (unat (dataSize (dev (STTS22H_measure (test_i2c False False) test_dev))))
      = I2C_SUCCESS (test_i2c False False)"
    by (simp only: test_i2c_simps)
  have b: "\<forall>h\<in>set [test_i2c True False]. transport_busy h (i2c test_dev)"
    "\<forall>h\<in>set [test_i2c True True]. transport_busy h (i2c test_dev)"
    "\<not> transport_busy (test_i2c False False) (i2c test_dev)"
    "\<not> transport_busy (test_i2c False True) (i2c test_dev)"
    "I2C_isFailed (test_i2c False True) (i2c test_dev)"
    by (simp_all add: test_i2c_simps)
  have i: "isReading (dev (STTS22H_measure (test_i2c False False) test_dev))"
    by (simp add: m)
  note t = failed_read_keeps_cache [OF test_dev_simps(1,2,3) disjI1 [OF refl] i b(1) b(3) r b(2) b(4) b(5)]
  have "(test_dev\<lparr>regAddr := STATUS_ADDR, dataSize := 3, isReading := True\<rparr>)\<lparr>isReading := False\<rparr>
      = test_dev\<lparr>regAddr := STATUS_ADDR, dataSize := 3\<rparr>"
    by (simp add: test_dev_def zero_dev_def)
  with t show ?thesis by (simp add: m)
qed

subsection \<open>C5: the triggers on a busy device\<close>

text \<open>
  Claim C5 fails for a structure that is not initialized: with \<^verbatim>\<open>isReading\<close> set and
  \<^verbatim>\<open>isInit\<close> clear, \<^verbatim>\<open>STTS22H_measure\<close> and \<^verbatim>\<open>STTS22H_checkConnection\<close> do
  not return \<^verbatim>\<open>STTS22H_BUSY\<close> (they return \<^verbatim>\<open>STTS22H_NOT_INIT\<close>, the first check
  of both).
\<close>

theorem busy_uninit_counterexample:
  "isReading zero_dev_busy
   \<and> ret (STTS22H_measure (test_i2c False False) zero_dev_busy)
       \<noteq> STTS22H_BUSY (test_i2c False False)
   \<and> ret (STTS22H_checkConnection (test_i2c False False) zero_dev_busy)
       \<noteq> STTS22H_BUSY (test_i2c False False)"
  by (simp add: STTS22H_measure_def STTS22H_checkConnection_def zero_dev_busy_def zero_dev_def
      STTS22H_BUSY_def STTS22H_NOT_INIT_def)

text \<open>
  Claim C5, amended. On a device whose flag \<^verbatim>\<open>isReading\<close> is set,
  \<^verbatim>\<open>STTS22H_checkConnection\<close> and \<^verbatim>\<open>STTS22H_measure\<close> request no transfer and
  leave the structure unchanged; they return \<^verbatim>\<open>STTS22H_BUSY\<close> when the device is
  initialized, and \<^verbatim>\<open>STTS22H_NOT_INIT\<close> when it is not.
\<close>

theorem busy_trigger_rejected:
  assumes "isReading stts"
  shows "STTS22H_checkConnection h stts =
       \<lparr>ret = (if isInit stts then STTS22H_BUSY h else STTS22H_NOT_INIT h), calls = [], dev = stts\<rparr>
    \<and> STTS22H_measure h stts =
       \<lparr>ret = (if isInit stts then STTS22H_BUSY h else STTS22H_NOT_INIT h), calls = [], dev = stts\<rparr>"
  using assms by (simp add: STTS22H_checkConnection_def STTS22H_measure_def)

text \<open>
  Claim C5, amended, at the example device with a measurement in flight.
\<close>

theorem busy_trigger_rejected_witness:
  "STTS22H_checkConnection (test_i2c False False) test_dev_busy =
       \<lparr>ret = - 7, calls = [], dev = test_dev_busy\<rparr>
   \<and> STTS22H_measure (test_i2c False False) test_dev_busy =
       \<lparr>ret = - 7, calls = [], dev = test_dev_busy\<rparr>"
  using busy_trigger_rejected [OF test_dev_busy_simps(2), of "test_i2c False False"]
  by (simp add: test_dev_busy_simps test_i2c_simps STTS22H_BUSY_def)

subsection \<open>C6: the threshold code\<close>

text \<open>
  Claim C6 fails: the code is not rounded to the nearest integer. For \<open>0.5\<close> degrees
  \<^verbatim>\<open>calculateThreshold\<close> returns \<open>63\<close>, while \<open>0.5 / 0.64 + 63 = 63.78125\<close> rounds
  to \<open>64\<close>, computed exactly or in single precision.
\<close>

theorem calculateThreshold_rounds_counterexample:
  "calculateThreshold (1 / 2) \<noteq> Some (word_of_int (round (1 / 2 / (64 / 100) + 63 :: rat)))
   \<and> calculateThreshold (1 / 2) = Some 63
   \<and> round (1 / 2 / (64 / 100) + 63 :: rat) = 64
   \<and> round (fadd (fdiv (1 / 2) (f32 (64 / 100))) (f32 63)) = 64"
  by code_simp

text \<open>
  Claim C6, amended. For a bound from \<open>-39.5\<close> to \<open>122.5\<close>, \<^verbatim>\<open>calculateThreshold\<close>
  returns the integral part (the fraction discarded, not rounded) of
  \<open>value / 0.64 + 63\<close> computed in single precision, which is within \<open>2\<^sup>-\<^sup>1\<^sup>5\<close>
  of the exact value; the code is from \<open>1\<close> to \<open>254\<close>, so the conversion to a byte is
  defined. In particular the code of \<open>0.0\<close> is \<open>63\<close>, that of \<open>-39.5\<close> is
  \<open>1\<close> and that of \<open>122.5\<close> is \<open>254\<close>. For any value \<open>w\<close> at all, a code
  that is returned is the integral part, truncated towards zero.
\<close>

theorem calculateThreshold_truncates:
  assumes "- (395 / 10) \<le> v" and "v \<le> 1225 / 10"
  shows "calculateThreshold v = Some (word_of_int \<lfloor>fadd (fdiv v (f32 (64 / 100))) (f32 63)\<rfloor>)
    \<and> 1 \<le> \<lfloor>fadd (fdiv v (f32 (64 / 100))) (f32 63)\<rfloor>
    \<and> \<lfloor>fadd (fdiv v (f32 (64 / 100))) (f32 63)\<rfloor> \<le> 254
    \<and> \<bar>fadd (fdiv v (f32 (64 / 100))) (f32 63) - (v / (64 / 100) + 63)\<bar> \<le> 1 / 2 ^ 15
    \<and> calculateThreshold 0 = Some 63
    \<and> calculateThreshold (- (395 / 10)) = Some 1
    \<and> calculateThreshold (1225 / 10) = Some 254
    \<and> (\<forall>c. calculateThreshold w = Some c \<longrightarrow>
          uint c = trunc (fadd (fdiv w (f32 (64 / 100))) (f32 63)))"
  using calculateThreshold_range [OF assms] calculateThreshold_values(1,2,3)
    calculateThreshold_Some [of w]
  by blast

text \<open>
  Claim C6, amended, at \<open>0.5\<close> degrees.
\<close>

theorem calculateThreshold_truncates_witness:
  "calculateThreshold (1 / 2) = Some (word_of_int \<lfloor>fadd (fdiv (1 / 2) (f32 (64 / 100))) (f32 63)\<rfloor>)
   \<and> \<lfloor>fadd (fdiv (1 / 2) (f32 (64 / 100))) (f32 63)\<rfloor> = 63"
proof -
  have "- (395 / 10) \<le> (1 / 2 :: rat)" "(1 / 2 :: rat) \<le> 1225 / 10" by simp_all
  note t = calculateThreshold_truncates [OF this]
  have "\<lfloor>fadd (fdiv (1 / 2) (f32 (64 / 100))) (f32 63)\<rfloor> = 63" by code_simp
  with t show ?thesis by (intro conjI) (simp_all only:)
qed

subsection \<open>C7: before the initialization\<close>

text \<open>
  Claim C7. On a structure that is not initialized, \<^verbatim>\<open>STTS22H_checkConnection\<close>,
  \<^verbatim>\<open>STTS22H_setting\<close>, \<^verbatim>\<open>STTS22H_setLimits\<close> and \<^verbatim>\<open>STTS22H_measure\<close> return
  \<^verbatim>\<open>STTS22H_NOT_INIT\<close>, request no transfer and leave the structure unchanged;
  \<^verbatim>\<open>STTS22H_update\<close> requests no transfer and leaves the structure unchanged.
\<close>

theorem not_init_rejected:
  assumes "\<not> isInit stts"
  shows "STTS22H_checkConnection h stts = \<lparr>ret = STTS22H_NOT_INIT h, calls = [], dev = stts\<rparr>
    \<and> STTS22H_setting h stts controlReg = \<lparr>ret = STTS22H_NOT_INIT h, calls = [], dev = stts\<rparr>
    \<and> STTS22H_setLimits h stts minTemp maxTemp isSetLimits =
        Some \<lparr>ret = STTS22H_NOT_INIT h, calls = [], dev = stts\<rparr>
    \<and> STTS22H_measure h stts = \<lparr>ret = STTS22H_NOT_INIT h, calls = [], dev = stts\<rparr>
    \<and> STTS22H_update h stts = \<lparr>ret = (), calls = [], dev = stts\<rparr>"
  using assms
  by (simp add: STTS22H_checkConnection_def STTS22H_setting_def STTS22H_setLimits_def
      STTS22H_measure_def STTS22H_update_def)

text \<open>
  Claim C7 at the structure of zero bytes.
\<close>

theorem not_init_rejected_witness:
  "\<not> isInit zero_dev
   \<and> ret (STTS22H_measure (test_i2c False False) zero_dev) = - 5
   \<and> calls (STTS22H_measure (test_i2c False False) zero_dev) = []
   \<and> STTS22H_setLimits (test_i2c False False) zero_dev 0 10 True =
        Some \<lparr>ret = - 5, calls = [], dev = zero_dev\<rparr>"
  using not_init_rejected [of zero_dev "test_i2c False False" 0 0 10 True]
  by (simp add: zero_dev_def test_i2c_def STTS22H_NOT_INIT_def)

subsection \<open>C8: the initialization\<close>

text \<open>
  Claim C8. \<^verbatim>\<open>STTS22H_init\<close> returns \<^verbatim>\<open>STTS22H_WRONG_DATA\<close> and leaves the structure
  unchanged for a null structure, a null handle or the address zero. Otherwise it returns
  \<^verbatim>\<open>STTS22H_SUCCESS\<close>, stores the handle and the address, sets \<^verbatim>\<open>temp\<close> to the
  single-precision number of \<open>-273.15\<close> and sets \<^verbatim>\<open>isInit\<close>. It requests no
  transfer in either case.
\<close>

theorem init_checks_and_resets:
  "STTS22H_init h None i2c_p addr = \<lparr>ret = STTS22H_WRONG_DATA h, calls = [], dev = None\<rparr>
   \<and> (i2c_p = NULL \<or> addr = 0 \<longrightarrow>
       STTS22H_init h (Some stts) i2c_p addr =
         \<lparr>ret = STTS22H_WRONG_DATA h, calls = [], dev = Some stts\<rparr>)
   \<and> (i2c_p \<noteq> NULL \<and> addr \<noteq> 0 \<longrightarrow>
       STTS22H_init h (Some stts) i2c_p addr =
         \<lparr>ret = STTS22H_SUCCESS, calls = [],
          dev = Some (stts\<lparr>i2c := i2c_p, devAddr := addr,
                           temp := f32 (- (27315 / 100)), isInit := True\<rparr>)\<rparr>)
   \<and> f32 (- (27315 / 100)) = - (8950579 / 32768)
   \<and> \<bar>f32 (- (27315 / 100)) - (- (27315 / 100))\<bar> \<le> 1 / 2 ^ 16"
proof -
  have a: "STTS22H_init h None i2c_p addr = \<lparr>ret = STTS22H_WRONG_DATA h, calls = [], dev = None\<rparr>"
    by (simp add: STTS22H_init_def)
  have b: "i2c_p = NULL \<or> addr = 0 \<longrightarrow>
       STTS22H_init h (Some stts) i2c_p addr =
         \<lparr>ret = STTS22H_WRONG_DATA h, calls = [], dev = Some stts\<rparr>"
    by (simp add: STTS22H_init_def)
  have c: "i2c_p \<noteq> NULL \<and> addr \<noteq> 0 \<longrightarrow>
       STTS22H_init h (Some stts) i2c_p addr =
         \<lparr>ret = STTS22H_SUCCESS, calls = [],
          dev = Some (stts\<lparr>i2c := i2c_p, devAddr := addr,
                           temp := f32 (- (27315 / 100)), isInit := True\<rparr>)\<rparr>"
    by (simp add: STTS22H_init_def)
  have d: "\<bar>f32 (- (27315 / 100)) - (- (27315 / 100))\<bar> \<le> 1 / 2 ^ 16"
    unfolding sentinel by simp
  from a b c sentinel d show ?thesis by (intro conjI)
qed

text \<open>
  Claim C8 at the structure of zero bytes: accepted with the handle \<open>1\<close> and the address
  \<open>0x3C\<close>, rejected with a null handle, rejected with the address zero.
\<close>

theorem init_checks_and_resets_witness:
  "STTS22H_init (test_i2c False False) (Some zero_dev) 1 0x3C =
     \<lparr>ret = 0, calls = [], dev = Some test_dev\<rparr>
   \<and> STTS22H_init (test_i2c False False) (Some zero_dev) NULL 0x3C =
     \<lparr>ret = - 6, calls = [], dev = Some zero_dev\<rparr>
   \<and> STTS22H_init (test_i2c False False) (Some zero_dev) 1 0 =
     \<lparr>ret = - 6, calls = [], dev = Some zero_dev\<rparr>"
proof -
  have "(1::nat) \<noteq> NULL \<and> (0x3C :: uint8) \<noteq> 0" by (simp add: NULL_def)
  then show ?thesis
    using init_checks_and_resets [of "test_i2c False False" 1 "0x3C" zero_dev]
      init_checks_and_resets [of "test_i2c False False" NULL "0x3C" zero_dev]
      init_checks_and_resets [of "test_i2c False False" 1 0 zero_dev]
    by (simp add: test_dev_def test_i2c_simps STTS22H_WRONG_DATA_def STTS22H_SUCCESS_def)
qed

subsection \<open>C9: what the update leaves alone\<close>

text \<open>
  Claim C9. \<^verbatim>\<open>STTS22H_update\<close> never changes \<^verbatim>\<open>isInit\<close>, \<^verbatim>\<open>i2c\<close>,
  \<^verbatim>\<open>devAddr\<close> or \<^verbatim>\<open>settings\<close>, whatever the structure and the transport.
\<close>

theorem update_frame:
  "isInit (dev (STTS22H_update h stts)) = isInit stts
   \<and> i2c (dev (STTS22H_update h stts)) = i2c stts
   \<and> devAddr (dev (STTS22H_update h stts)) = devAddr stts
   \<and> settings (dev (STTS22H_update h stts)) = settings stts"
  by (simp add: STTS22H_update_def Let_def decode_frame)

text \<open>
  Claim C9 at the example device with a measurement in flight.
\<close>

theorem update_frame_witness:
  "isInit (dev (STTS22H_update (test_i2c False False) test_dev_busy))
   \<and> i2c (dev (STTS22H_update (test_i2c False False) test_dev_busy)) = 1
   \<and> devAddr (dev (STTS22H_update (test_i2c False False) test_dev_busy)) = 0x3C
   \<and> settings (dev (STTS22H_update (test_i2c False False) test_dev_busy)) = settings test_dev_busy"
  using update_frame [of "test_i2c False False" test_dev_busy]
  by (simp add: test_dev_busy_simps)

subsection \<open>C10: a lower bound above the upper bound\<close>

text \<open>
  Claim C10. On an initialized device, for \<^verbatim>\<open>minTemp\<close> and \<^verbatim>\<open>maxTemp\<close> each from
  \<open>-39.5\<close> to \<open>122.5\<close>, in any order, \<^verbatim>\<open>STTS22H_setLimits\<close> with the limits
  enabled requests the write of \<^verbatim>\<open>TEMP_H_LIMIT_ADDR\<close> and the two codes, and returns
  the result of the transport, which is not \<^verbatim>\<open>STTS22H_WRONG_DATA\<close> when it is one of
  the transport's own codes (none below \<open>- I2C_NUMBER_ERRORS\<close>).
\<close>

theorem setLimits_accepts_min_above_max:
  assumes "isInit stts"
    and "- (395 / 10) \<le> minTemp" and "minTemp \<le> 1225 / 10"
    and "- (395 / 10) \<le> maxTemp" and "maxTemp \<le> 1225 / 10"
  shows "\<exists>d1 d2. calculateThreshold maxTemp = Some d1 \<and> calculateThreshold minTemp = Some d2 \<and>
     STTS22H_setLimits h stts minTemp maxTemp True =
       Some \<lparr>ret = I2C_writeData h (i2c stts) (devAddr stts) [TEMP_H_LIMIT_ADDR, d1, d2] 3 True,
             calls = [WriteData (i2c stts) (devAddr stts) [TEMP_H_LIMIT_ADDR, d1, d2] 3 True],
             dev = stts\<rparr> \<and>
     (- I2C_NUMBER_ERRORS h \<le> I2C_writeData h (i2c stts) (devAddr stts) [TEMP_H_LIMIT_ADDR, d1, d2] 3 True
        \<longrightarrow> I2C_writeData h (i2c stts) (devAddr stts) [TEMP_H_LIMIT_ADDR, d1, d2] 3 True
              \<noteq> STTS22H_WRONG_DATA h)"
proof -
  obtain d1 d2 where d: "calculateThreshold maxTemp = Some d1" "calculateThreshold minTemp = Some d2"
    "STTS22H_setLimits h stts minTemp maxTemp True =
       Some \<lparr>ret = I2C_writeData h (i2c stts) (devAddr stts) [TEMP_H_LIMIT_ADDR, d1, d2] 3 True,
             calls = [WriteData (i2c stts) (devAddr stts) [TEMP_H_LIMIT_ADDR, d1, d2] 3 True],
             dev = stts\<rparr>"
    using setLimits_on [OF assms, of h] by blast
  have "- I2C_NUMBER_ERRORS h \<le> I2C_writeData h (i2c stts) (devAddr stts) [TEMP_H_LIMIT_ADDR, d1, d2] 3 True
        \<longrightarrow> I2C_writeData h (i2c stts) (devAddr stts) [TEMP_H_LIMIT_ADDR, d1, d2] 3 True
              \<noteq> STTS22H_WRONG_DATA h"
    by (simp add: STTS22H_WRONG_DATA_def)
  with d show ?thesis by blast
qed

text \<open>
  Claim C10 at the example device, with the lower bound \<open>100\<close> above the upper bound
  \<open>0\<close>.
\<close>

theorem setLimits_accepts_min_above_max_witness:
  "(0::rat) < 100 \<and>
   STTS22H_setLimits (test_i2c False False) test_dev 100 0 True =
     Some \<lparr>ret = 0, calls = [WriteData 1 0x3C [TEMP_H_LIMIT_ADDR, 63, 219] 3 True], dev = test_dev\<rparr>"
proof -
  have "- (395 / 10) \<le> (100::rat)" "(100::rat) \<le> 1225 / 10"
    "- (395 / 10) \<le> (0::rat)" "(0::rat) \<le> 1225 / 10" by simp_all
  note t = setLimits_accepts_min_above_max [OF test_dev_simps(1) this, of "test_i2c False False"]
  then show ?thesis
    by (auto simp: calculateThreshold_values test_dev_simps test_i2c_simps)
qed

end
